theory Spec2Isabelle
  imports Main
begin

section \<open>WalletPay webhook manager: the verification-and-dispatch pipeline\<close>

text \<open>
  A shallow embedding of \<^verbatim>\<open>WalletPay/WebhookManager.py\<close>. Python \<^verbatim>\<open>str\<close> values are
  \<open>string\<close>s whose characters are read as the code points U+0000..U+00FF (what Starlette
  yields for header values, which it decodes as Latin-1); \<^verbatim>\<open>bytes\<close> values are \<open>char list\<close>s
  read as octets. Exceptions are values of \<open>exn\<close>; a function that may raise returns
  \<open>exn + 'a\<close>. The calls to \<^verbatim>\<open>logging.info\<close> are modelled as the list of lines they emit.
  The server bootstrap (\<^verbatim>\<open>start\<close>, \<^verbatim>\<open>register_webhook_endpoint\<close>, the FastAPI application
  object) is outside the model.
\<close>

subsection \<open>Values and exceptions\<close>

type_synonym bytes = "char list"

text \<open>What \<^verbatim>\<open>json.loads\<close> returns. A float is kept as its literal: the handler never
  inspects one.\<close>

datatype json_value =
    JNull
  | JBool bool
  | JInt int
  | JFloat string
  | JString string
  | JArray "json_value list"
  | JObject "(string \<times> json_value) list"

text \<open>\<open>HTTPException status_code detail\<close> is FastAPI's; the others are the built-in
  exceptions this module can let escape. \<open>Raised\<close> stands for whatever application code
  (a callback, the \<open>Event\<close> constructor) raises.\<close>

datatype exn =
    HTTPException nat string
  | JSONDecodeError
  | TypeError
  | IndexError
  | KeyError
  | Raised string

text \<open>The handler's return value, a \<^verbatim>\<open>dict\<close> with one string entry.\<close>

type_synonym response = "(string \<times> string) list"

subsection \<open>Library functions the module calls\<close>

text \<open>\<^verbatim>\<open>base64.b64encode(bs).decode()\<close>: the standard alphabet with \<open>=\<close> padding (RFC 4648).
  The encoded bytes are ASCII, so decoding them to \<^verbatim>\<open>str\<close> keeps every character.\<close>

definition b64_table :: string where
  "b64_table = ''ABCDEFGHIJKLMNOPQRSTUVWXYZabcdefghijklmnopqrstuvwxyz0123456789+/''"

definition b64_char :: "nat \<Rightarrow> char" where
  "b64_char n = b64_table ! (n mod 64)"

fun b64encode :: "bytes \<Rightarrow> string" where
  "b64encode [] = []"
| "b64encode [a] =
     (let x = (of_char a :: nat)
      in [b64_char (x div 4), b64_char ((x mod 4) * 16), CHR ''='', CHR ''=''])"
| "b64encode [a, b] =
     (let x = (of_char a :: nat); y = (of_char b :: nat)
      in [b64_char (x div 4), b64_char ((x mod 4) * 16 + y div 16),
          b64_char ((y mod 16) * 4), CHR ''=''])"
| "b64encode (a # b # c # rest) =
     (let x = (of_char a :: nat); y = (of_char b :: nat); z = (of_char c :: nat)
      in [b64_char (x div 4), b64_char ((x mod 4) * 16 + y div 16),
          b64_char ((y mod 16) * 4 + z div 64), b64_char (z mod 64)] @ b64encode rest)"

text \<open>\<^verbatim>\<open>bytes(s, "utf-8")\<close> on a string of code points below U+0100: one octet below
  U+0080, two octets from there on.\<close>

definition utf8_char :: "char \<Rightarrow> bytes" where
  "utf8_char c =
     (let n = (of_char c :: nat)
      in if n < 128 then [c] else [char_of (192 + n div 64), char_of (128 + n mod 64)])"

definition utf8 :: "string \<Rightarrow> bytes" where
  "utf8 s = concat (map utf8_char s)"

definition is_ascii :: "string \<Rightarrow> bool" where
  "is_ascii s = list_all (\<lambda>c. (of_char c :: nat) < 128) s"

text \<open>\<^verbatim>\<open>hmac.compare_digest(a, b)\<close> with \<open>a\<close> a \<^verbatim>\<open>str\<close> and \<open>b\<close> an \<^verbatim>\<open>Optional[str]\<close>: it raises
  \<^verbatim>\<open>TypeError\<close> when \<open>b\<close> is \<^verbatim>\<open>None\<close> and when either string has a non-ASCII character;
  otherwise it is equality.\<close>

definition compare_digest :: "string \<Rightarrow> string option \<Rightarrow> exn + bool" where
  "compare_digest a b =
     (case b of
        None \<Rightarrow> Inl TypeError
      | Some s \<Rightarrow> if is_ascii a \<and> is_ascii s then Inr (a = s) else Inl TypeError)"

text \<open>\<^verbatim>\<open>x.split(", ")\<close>: the pieces between the non-overlapping occurrences of the two
  characters comma, space, found from the left; \<open>acc\<close> is the piece being read.\<close>

fun split_comma_space :: "string \<Rightarrow> string \<Rightarrow> string list" where
  "split_comma_space acc [] = [acc]"
| "split_comma_space acc [c] = [acc @ [c]]"
| "split_comma_space acc (c # d # cs) =
     (if c = CHR '','' \<and> d = CHR '' '' then acc # split_comma_space [] cs
      else split_comma_space (acc @ [c]) (d # cs))"

text \<open>How an f-string renders an \<^verbatim>\<open>Optional[str]\<close>.\<close>

definition format_opt :: "string option \<Rightarrow> string" where
  "format_opt v = (case v of None \<Rightarrow> ''None'' | Some s \<Rightarrow> s)"

text \<open>\<^verbatim>\<open>data[0]\<close> on a value that \<^verbatim>\<open>json.loads\<close> returned.\<close>

definition getitem0 :: "json_value \<Rightarrow> exn + json_value" where
  "getitem0 data =
     (case data of
        JArray xs \<Rightarrow> (case xs of [] \<Rightarrow> Inl IndexError | x # _ \<Rightarrow> Inr x)
      | JObject kvs \<Rightarrow> Inl KeyError
      | JString s \<Rightarrow> (case s of [] \<Rightarrow> Inl IndexError | c # _ \<Rightarrow> Inr (JString [c]))
      | _ \<Rightarrow> Inl TypeError)"

subsection \<open>The request, the collaborators and the manager\<close>

text \<open>The request as the handler reads it: \<^verbatim>\<open>request.client.host\<close>, \<^verbatim>\<open>request.method\<close>,
  \<^verbatim>\<open>request.url.path\<close>, \<^verbatim>\<open>request.headers.get\<close>, \<^verbatim>\<open>await request.body()\<close> and the outcome
  of \<^verbatim>\<open>await request.json()\<close> (\<open>None\<close> when the body is not valid JSON and the call
  raises).\<close>

record request =
  client_host :: string
  http_method :: string
  url_path :: string
  headers :: "string \<rightharpoonup> string"
  body :: bytes
  json :: "json_value option"

text \<open>The API client: the module reads its \<^verbatim>\<open>api_key\<close> and hands the client to every
  callback.\<close>

record WalletPayAPI =
  api_key :: string

text \<open>What the module uses and does not define: HMAC-SHA256 (\<open>hmac_sha256 key msg\<close>), and
  the class \<^verbatim>\<open>Event\<close> of \<^verbatim>\<open>WalletPay.types\<close> with its attribute \<^verbatim>\<open>type\<close>. They are parameters
  of the model.\<close>

record 'ev collaborators =
  hmac_sha256 :: "bytes \<Rightarrow> bytes \<Rightarrow> bytes"
  Event :: "json_value \<Rightarrow> exn + 'ev"
  event_type :: "'ev \<Rightarrow> json_value"

text \<open>\<^verbatim>\<open>await callback(event=event, client=self.client)\<close> acts on the application's state
  \<open>'w\<close> and either returns (\<open>None\<close>) or raises (\<open>Some e\<close>). The application's state is
  everything a callback can change apart from the manager's two callback lists: a
  callback that registers handlers while a request is being dispatched is not modelled.\<close>

type_synonym ('ev, 'w) callback = "'ev \<Rightarrow> WalletPayAPI \<Rightarrow> 'w \<Rightarrow> exn option \<times> 'w"

record ('ev, 'w) WebhookManager =
  successful_callbacks :: "('ev, 'w) callback list"
  failed_callbacks :: "('ev, 'w) callback list"
  host :: string
  port :: int
  api_key :: string
  webhook_endpoint :: string
  client :: WalletPayAPI

definition ALLOWED_IPS :: "string set" where
  "ALLOWED_IPS = {''172.255.248.29'', ''172.255.248.12'', ''127.0.0.1''}"

subsection \<open>Construction and registration\<close>

text \<open>\<^verbatim>\<open>__init__\<close>, with every argument given (the defaults are \<^verbatim>\<open>"0.0.0.0"\<close>, \<^verbatim>\<open>9123\<close> and
  \<^verbatim>\<open>"/wp_webhook"\<close>): \<^verbatim>\<open>webhook_endpoint[0]\<close> raises \<^verbatim>\<open>IndexError\<close> on the empty string.\<close>

definition init ::
  "WalletPayAPI \<Rightarrow> string \<Rightarrow> int \<Rightarrow> string \<Rightarrow> exn + ('ev, 'w) WebhookManager" where
  "init client_arg host_arg port_arg endpoint =
     (case endpoint of
        [] \<Rightarrow> Inl IndexError
      | c # _ \<Rightarrow>
          Inr \<lparr> successful_callbacks = [], failed_callbacks = [],
                host = host_arg, port = port_arg,
                api_key = WalletPayAPI.api_key client_arg,
                webhook_endpoint = (if c \<noteq> CHR ''/'' then ''/'' @ endpoint else endpoint),
                client = client_arg \<rparr>)"

text \<open>\<^verbatim>\<open>successful_handler()(func)\<close> and \<^verbatim>\<open>failed_handler()(func)\<close>: the decorator's return
  value and the manager after the call.\<close>

definition successful_handler ::
  "('ev, 'w) WebhookManager \<Rightarrow> ('ev, 'w) callback \<Rightarrow> ('ev, 'w) callback \<times> ('ev, 'w) WebhookManager" where
  "successful_handler self func =
     (func, self\<lparr>successful_callbacks := successful_callbacks self @ [func]\<rparr>)"

definition failed_handler ::
  "('ev, 'w) WebhookManager \<Rightarrow> ('ev, 'w) callback \<Rightarrow> ('ev, 'w) callback \<times> ('ev, 'w) WebhookManager" where
  "failed_handler self func =
     (func, self\<lparr>failed_callbacks := failed_callbacks self @ [func]\<rparr>)"

subsection \<open>Client address resolution\<close>

text \<open>The loop of \<^verbatim>\<open>__get_x_forwarded_for\<close>: the first candidate in the allowed set, or
  \<open>None\<close> when the loop ends.\<close>

fun first_allowed :: "string list \<Rightarrow> string option" where
  "first_allowed [] = None"
| "first_allowed (ip # ips) = (if ip \<in> ALLOWED_IPS then Some ip else first_allowed ips)"

definition get_x_forwarded_for :: "(string \<rightharpoonup> string) \<Rightarrow> string option" where
  "get_x_forwarded_for hs =
     (case hs ''X-Forwarded-For'' of
        None \<Rightarrow> None
      | Some x_forwarded_for \<Rightarrow>
          if x_forwarded_for = [] then None
          else first_allowed (split_comma_space [] x_forwarded_for))"

text \<open>\<^verbatim>\<open>__get_client_ip\<close>: the result and the lines logged.\<close>

definition get_client_ip :: "request \<Rightarrow> (exn + string) \<times> string list" where
  "get_client_ip req =
     (let x_forwarded_for = get_x_forwarded_for (headers req);
          client_ip = client_host req
      in case x_forwarded_for of
           Some ip \<Rightarrow>
             if ip \<noteq> [] then (Inr ip, [])
             else if client_ip \<notin> ALLOWED_IPS
               then (Inl (HTTPException 403 ''IP not allowed''),
                     [''IP '' @ client_ip @ '' not allowed''])
               else (Inr client_ip, [])
         | None \<Rightarrow>
             if client_ip \<notin> ALLOWED_IPS
               then (Inl (HTTPException 403 ''IP not allowed''),
                     [''IP '' @ client_ip @ '' not allowed''])
               else (Inr client_ip, []))"

subsection \<open>Signature verification\<close>

definition request_path :: "request \<Rightarrow> string" where
  "request_path req =
     (case headers req ''X-Original-URI'' of
        None \<Rightarrow> url_path req
      | Some p \<Rightarrow> if p \<noteq> [] then p else url_path req)"

definition canonical_message :: "request \<Rightarrow> string" where
  "canonical_message req =
     http_method req @ ''.'' @ request_path req @ ''.'' @
     format_opt (headers req ''WalletPay-Timestamp'') @ ''.'' @ b64encode (body req)"

definition expected_signature_b64 ::
  "'ev collaborators \<Rightarrow> ('ev, 'w) WebhookManager \<Rightarrow> request \<Rightarrow> string" where
  "expected_signature_b64 C self req =
     b64encode (hmac_sha256 C (utf8 (api_key self)) (utf8 (canonical_message req)))"

subsection \<open>Dispatch\<close>

text \<open>The loop \<^verbatim>\<open>for callback in callbacks: await callback(event=event, client=self.client)\<close>:
  it stops at the first callback that raises.\<close>

fun run_callbacks ::
  "('ev, 'w) callback list \<Rightarrow> 'ev \<Rightarrow> WalletPayAPI \<Rightarrow> 'w \<Rightarrow> exn option \<times> 'w" where
  "run_callbacks [] event cl w = (None, w)"
| "run_callbacks (callback # rest) event cl w =
     (case callback event cl w of
        (Some e, w') \<Rightarrow> (Some e, w')
      | (None, w') \<Rightarrow> run_callbacks rest event cl w')"

text \<open>\<^verbatim>\<open>event = Event(data[0])\<close>.\<close>

definition make_event :: "'ev collaborators \<Rightarrow> json_value \<Rightarrow> exn + 'ev" where
  "make_event C data = (case getitem0 data of Inl e \<Rightarrow> Inl e | Inr d0 \<Rightarrow> Event C d0)"

text \<open>The part of \<^verbatim>\<open>_handle_webhook\<close> after the signature check.\<close>

definition dispatch ::
  "'ev collaborators \<Rightarrow> ('ev, 'w) WebhookManager \<Rightarrow> json_value \<Rightarrow> 'w \<Rightarrow> (exn + response) \<times> 'w" where
  "dispatch C self data w =
     (case make_event C data of
        Inl e \<Rightarrow> (Inl e, w)
      | Inr event \<Rightarrow>
          if event_type C event = JString ''ORDER_PAID'' then
            (case run_callbacks (successful_callbacks self) event (client self) w of
               (Some e, w') \<Rightarrow> (Inl e, w')
             | (None, w') \<Rightarrow> (Inr [(''message'', ''Successful event processed!'')], w'))
          else if event_type C event = JString ''ORDER_FAILED'' then
            (case run_callbacks (failed_callbacks self) event (client self) w of
               (Some e, w') \<Rightarrow> (Inl e, w')
             | (None, w') \<Rightarrow> (Inr [(''message'', ''Failed event processed!'')], w'))
          else (Inr [(''message'', ''Webhook received with unknown status!'')], w))"

text \<open>\<^verbatim>\<open>_handle_webhook\<close>: the response or the exception raised, the lines logged, and the
  application's state afterwards.\<close>

definition handle_webhook ::
  "'ev collaborators \<Rightarrow> ('ev, 'w) WebhookManager \<Rightarrow> request \<Rightarrow> 'w
     \<Rightarrow> (exn + response) \<times> string list \<times> 'w" where
  "handle_webhook C self req w =
     (case get_client_ip req of
        (Inl e, lg) \<Rightarrow> (Inl e, lg, w)
      | (Inr client_ip, lg) \<Rightarrow>
          (let lg1 = lg @ [''Incoming webhook from '' @ client_ip]
           in case json req of
                None \<Rightarrow> (Inl JSONDecodeError, lg1, w)
              | Some data \<Rightarrow>
                  (let signature = headers req ''Walletpay-Signature'';
                       expected = expected_signature_b64 C self req
                   in case compare_digest expected signature of
                        Inl e \<Rightarrow> (Inl e, lg1, w)
                      | Inr False \<Rightarrow>
                          (Inl (HTTPException 400 ''Invalid signature''),
                           lg1 @ [''Invalid signature. Expected: '' @ expected @
                                  '' Get from header: '' @ format_opt signature],
                           w)
                      | Inr True \<Rightarrow>
                          (case dispatch C self data w of (res, w') \<Rightarrow> (res, lg1, w')))))"

subsection \<open>Notions the properties are stated with\<close>

text \<open>Every callback of the list invoked once, in list order, each on the state its
  predecessor left: the state after the last one.\<close>

definition invoke_in_order ::
  "('ev, 'w) callback list \<Rightarrow> 'ev \<Rightarrow> WalletPayAPI \<Rightarrow> 'w \<Rightarrow> 'w" where
  "invoke_in_order callbacks event cl w = foldl (\<lambda>v callback. snd (callback event cl v)) w callbacks"

text \<open>Every callback of the list returns normally when its turn comes.\<close>

fun all_return :: "('ev, 'w) callback list \<Rightarrow> 'ev \<Rightarrow> WalletPayAPI \<Rightarrow> 'w \<Rightarrow> bool" where
  "all_return [] event cl w = True"
| "all_return (callback # rest) event cl w =
     (fst (callback event cl w) = None \<and> all_return rest event cl (snd (callback event cl w)))"

text \<open>\<^verbatim>\<open>'.'.join(parts)\<close>.\<close>

fun join_dot :: "string list \<Rightarrow> string" where
  "join_dot [] = []"
| "join_dot [p] = p"
| "join_dot (p # q # ps) = p @ ''.'' @ join_dot (q # ps)"

text \<open>The exceptions FastAPI answers with their own status code and a JSON \<open>detail\<close>
  body are the \<open>HTTPException\<close>s.\<close>

fun is_http_exception :: "exn \<Rightarrow> bool" where
  "is_http_exception (HTTPException status_code detail) = True"
| "is_http_exception e = False"

subsection \<open>Concrete collaborators, managers and requests\<close>

text \<open>Modelled from the spec: the class \<^verbatim>\<open>Event\<close> lives in \<^verbatim>\<open>WalletPay/types\<close>, which is not
  among the sources. The spec describes it as a typed view over the parsed JSON payload
  that carries a \<open>type\<close> discriminator and the original payload fields. This instance
  only serves to run the handler on concrete requests; the general statements take the
  class as the parameters \<open>Event\<close> and \<open>event_type\<close>.\<close>

record event =
  kind :: json_value
  payload :: json_value

definition example_Event :: "json_value \<Rightarrow> exn + event" where
  "example_Event d =
     (case d of
        JObject kvs \<Rightarrow>
          Inr \<lparr> kind = (case map_of kvs ''type'' of None \<Rightarrow> JNull | Some t \<Rightarrow> t), payload = d \<rparr>
      | _ \<Rightarrow> Inl (Raised ''Event''))"

text \<open>A two-character checksum in the place of HMAC-SHA256, for the concrete runs below;
  the general statements hold for every function in that place.\<close>

definition example_mac :: "bytes \<Rightarrow> bytes \<Rightarrow> bytes" where
  "example_mac key msg =
     (let h = foldl (\<lambda>h c. (31 * h + (of_char c :: nat)) mod 4096) 7 (key @ msg)
      in [b64_char (h div 64), b64_char h])"

definition example_env :: "event collaborators" where
  "example_env = \<lparr> hmac_sha256 = example_mac, Event = example_Event, event_type = kind \<rparr>"

text \<open>Callbacks over a journal: one that writes a line, one that raises.\<close>

definition mark :: "string \<Rightarrow> (event, string list) callback" where
  "mark s = (\<lambda>event cl w. (None, w @ [s]))"

definition failing :: "string \<Rightarrow> (event, string list) callback" where
  "failing s = (\<lambda>event cl w. (Some (Raised s), w))"

definition example_manager ::
  "(event, string list) callback list \<Rightarrow> (event, string list) callback list
     \<Rightarrow> (event, string list) WebhookManager" where
  "example_manager on_paid on_failed =
     \<lparr> successful_callbacks = on_paid, failed_callbacks = on_failed,
       host = ''0.0.0.0'', port = 9123, api_key = ''secret'',
       webhook_endpoint = ''/wp_webhook'', client = \<lparr> WalletPayAPI.api_key = ''secret'' \<rparr> \<rparr>"

text \<open>A POST to \<^verbatim>\<open>/wp_webhook\<close> from the given peer, with the given headers, carrying one
  event object \<^verbatim>\<open>[{"type":"<t>"}]\<close> whose type is \<open>ORDER_PAID\<close>, \<open>ORDER_FAILED\<close> or
  \<open>REFUND\<close>; and requests with the bodies \<^verbatim>\<open>[]\<close> and \<^verbatim>\<open>[{\<close> (not JSON).\<close>

definition example_request ::
  "string \<Rightarrow> (string \<times> string) list \<Rightarrow> bytes \<Rightarrow> json_value option \<Rightarrow> request" where
  "example_request peer hs raw parsed =
     \<lparr> client_host = peer, http_method = ''POST'', url_path = ''/wp_webhook'',
       headers = map_of hs, body = raw, json = parsed \<rparr>"

definition paid_body :: bytes where
  \<open>paid_body = ''[{"type":"ORDER_PAID"}]''\<close>

definition paid_json :: "json_value option" where
  "paid_json = Some (JArray [JObject [(''type'', JString ''ORDER_PAID'')]])"

definition failed_body :: bytes where
  \<open>failed_body = ''[{"type":"ORDER_FAILED"}]''\<close>

definition failed_json :: "json_value option" where
  "failed_json = Some (JArray [JObject [(''type'', JString ''ORDER_FAILED'')]])"

definition refund_body :: bytes where
  \<open>refund_body = ''[{"type":"REFUND"}]''\<close>

definition refund_json :: "json_value option" where
  "refund_json = Some (JArray [JObject [(''type'', JString ''REFUND'')]])"

text \<open>The same request from \<^verbatim>\<open>127.0.0.1\<close> with a timestamp header and the given signature
  header.\<close>

definition signed_request :: "bytes \<Rightarrow> json_value option \<Rightarrow> string \<Rightarrow> request" where
  "signed_request raw parsed signature =
     example_request ''127.0.0.1''
       [(''WalletPay-Timestamp'', ''1700000000''), (''Walletpay-Signature'', signature)] raw parsed"

text \<open>The same request with an \<^verbatim>\<open>X-Original-URI\<close> header in front of it.\<close>

definition proxied_request :: "string \<Rightarrow> string \<Rightarrow> request" where
  "proxied_request original_uri signature =
     example_request ''127.0.0.1''
       [(''X-Original-URI'', original_uri), (''WalletPay-Timestamp'', ''1700000000''),
        (''Walletpay-Signature'', signature)] paid_body paid_json"

text \<open>The canonical message as C2 words it, for a request whose timestamp header has the
  value \<open>t\<close>: the path is the \<^verbatim>\<open>X-Original-URI\<close> value whenever that header is present.\<close>

definition claimed_canonical_message :: "request \<Rightarrow> string \<Rightarrow> string" where
  "claimed_canonical_message req t =
     join_dot [http_method req,
               (case headers req ''X-Original-URI'' of None \<Rightarrow> url_path req | Some p \<Rightarrow> p),
               t, b64encode (body req)]"

section \<open>Properties\<close>

subsection \<open>Library facts\<close>

lemma b64_table_length: "length b64_table = 64"
  by (simp add: b64_table_def)

lemma b64_char_ascii: "(of_char (b64_char n) :: nat) < 128"
proof -
  have "b64_char n \<in> set b64_table"
    unfolding b64_char_def by (rule nth_mem) (simp add: b64_table_length)
  moreover have "list_all (\<lambda>c. (of_char c :: nat) < 128) b64_table"
    by (simp add: b64_table_def)
  ultimately show ?thesis by (simp add: list_all_iff)
qed

lemma is_ascii_b64encode: "is_ascii (b64encode bs)"
  by (induction bs rule: b64encode.induct) (simp_all add: is_ascii_def Let_def b64_char_ascii)

lemma utf8_ascii: "is_ascii s \<Longrightarrow> utf8 s = s"
  by (induction s) (simp_all add: is_ascii_def utf8_def utf8_char_def)

lemma compare_digest_b64:
  "compare_digest (b64encode d) sig =
     (case sig of None \<Rightarrow> Inl TypeError
      | Some s \<Rightarrow> if is_ascii s then Inr (b64encode d = s) else Inl TypeError)"
  by (simp add: compare_digest_def is_ascii_b64encode split: option.splits)

lemma b64encode_vectors:
  "b64encode ''M'' = ''TQ=='' \<and> b64encode ''Ma'' = ''TWE='' \<and> b64encode ''Man'' = ''TWFu''"
  by (simp add: b64_char_def b64_table_def)

subsection \<open>Client address resolution\<close>

lemma allowed_nonempty: "ip \<in> ALLOWED_IPS \<Longrightarrow> ip \<noteq> []"
  by (auto simp: ALLOWED_IPS_def)

lemma first_allowed_append:
  "set pre \<inter> ALLOWED_IPS = {} \<Longrightarrow> ip \<in> ALLOWED_IPS \<Longrightarrow>
   first_allowed (pre @ ip # post) = Some ip"
  by (induction pre) auto

lemma first_allowed_None_iff: "first_allowed ips = None \<longleftrightarrow> set ips \<inter> ALLOWED_IPS = {}"
  by (induction ips) auto

lemma first_allowed_Some: "first_allowed ips = Some ip \<Longrightarrow> ip \<in> set ips \<and> ip \<in> ALLOWED_IPS"
  by (induction ips) (auto split: if_splits)

lemma get_x_forwarded_for_Some:
  "get_x_forwarded_for hs = Some ip \<Longrightarrow>
   \<exists>h. hs ''X-Forwarded-For'' = Some h \<and> ip \<in> set (split_comma_space [] h) \<and> ip \<in> ALLOWED_IPS"
  by (auto simp: get_x_forwarded_for_def dest: first_allowed_Some split: option.splits if_splits)

lemma get_x_forwarded_for_None_iff:
  "get_x_forwarded_for hs = None \<longleftrightarrow>
   (case hs ''X-Forwarded-For'' of None \<Rightarrow> True
    | Some h \<Rightarrow> set (split_comma_space [] h) \<inter> ALLOWED_IPS = {})"
proof (cases "hs ''X-Forwarded-For''")
  case None
  then show ?thesis by (simp add: get_x_forwarded_for_def)
next
  case (Some h)
  show ?thesis
  proof (cases "h = []")
    case True
    have "[] \<notin> ALLOWED_IPS" using allowed_nonempty by blast
    with True Some show ?thesis by (simp add: get_x_forwarded_for_def)
  next
    case False
    with Some show ?thesis by (simp add: get_x_forwarded_for_def first_allowed_None_iff)
  qed
qed

lemma get_client_ip_cases:
  "get_client_ip req = (Inr (client_host req), []) \<and> client_host req \<in> ALLOWED_IPS
     \<and> get_x_forwarded_for (headers req) = None \<or>
   (\<exists>ip. get_client_ip req = (Inr ip, []) \<and> get_x_forwarded_for (headers req) = Some ip) \<or>
   get_client_ip req =
     (Inl (HTTPException 403 ''IP not allowed''), [''IP '' @ client_host req @ '' not allowed''])
     \<and> client_host req \<notin> ALLOWED_IPS \<and> get_x_forwarded_for (headers req) = None"
proof (cases "get_x_forwarded_for (headers req)")
  case None
  then show ?thesis by (simp add: get_client_ip_def Let_def)
next
  case (Some ip)
  then have "ip \<noteq> []"
    using get_x_forwarded_for_Some allowed_nonempty by blast
  with Some show ?thesis by (simp add: get_client_ip_def Let_def)
qed

lemma get_client_ip_Inr:
  "fst (get_client_ip req) = Inr ip \<Longrightarrow> get_client_ip req = (Inr ip, [])"
  using get_client_ip_cases [of req] by auto

lemma get_client_ip_Inl:
  "fst (get_client_ip req) = Inl e \<Longrightarrow>
   get_client_ip req =
     (Inl (HTTPException 403 ''IP not allowed''), [''IP '' @ client_host req @ '' not allowed''])"
  using get_client_ip_cases [of req] by auto

text \<open>
  C3. When the \<open>X-Forwarded-For\<close> header, split on comma-space, has an allowed candidate,
  the resolver returns the first allowed candidate in header order, whatever the peer
  address is; when the header is absent, empty or has no allowed candidate, the outcome
  is decided by the peer address: it is returned if allowed, and 403 is raised if not.
\<close>

theorem forwarded_for_first_allowed:
  "(headers req ''X-Forwarded-For'' = Some h \<and>
    split_comma_space [] h = pre @ ip # post \<and>
    set pre \<inter> ALLOWED_IPS = {} \<and> ip \<in> ALLOWED_IPS
      \<longrightarrow> get_client_ip (req\<lparr>client_host := peer\<rparr>) = (Inr ip, []))
   \<and>
   ((headers req ''X-Forwarded-For'' = None \<or> headers req ''X-Forwarded-For'' = Some [] \<or>
     (headers req ''X-Forwarded-For'' = Some h \<and>
      set (split_comma_space [] h) \<inter> ALLOWED_IPS = {}))
      \<longrightarrow> fst (get_client_ip req) =
            (if client_host req \<in> ALLOWED_IPS then Inr (client_host req)
             else Inl (HTTPException 403 ''IP not allowed'')))"
proof (intro conjI impI)
  assume a: "headers req ''X-Forwarded-For'' = Some h \<and>
    split_comma_space [] h = pre @ ip # post \<and>
    set pre \<inter> ALLOWED_IPS = {} \<and> ip \<in> ALLOWED_IPS"
  then have ne: "ip \<noteq> []" by (simp add: allowed_nonempty)
  have "h \<noteq> []"
  proof
    assume "h = []"
    with a have "[[]] = pre @ ip # post" by simp
    then have "ip = []" by (cases pre) auto
    with ne show False by simp
  qed
  moreover from a have "first_allowed (split_comma_space [] h) = Some ip"
    by (simp add: first_allowed_append)
  ultimately have "get_x_forwarded_for (headers req) = Some ip"
    using a by (simp add: get_x_forwarded_for_def)
  then show "get_client_ip (req\<lparr>client_host := peer\<rparr>) = (Inr ip, [])"
    using ne by (simp add: get_client_ip_def Let_def)
next
  assume b: "headers req ''X-Forwarded-For'' = None \<or> headers req ''X-Forwarded-For'' = Some [] \<or>
     (headers req ''X-Forwarded-For'' = Some h \<and>
      set (split_comma_space [] h) \<inter> ALLOWED_IPS = {})"
  have "[] \<notin> ALLOWED_IPS" using allowed_nonempty by blast
  with b have "get_x_forwarded_for (headers req) = None"
    by (auto simp: get_x_forwarded_for_None_iff)
  then show "fst (get_client_ip req) =
            (if client_host req \<in> ALLOWED_IPS then Inr (client_host req)
             else Inl (HTTPException 403 ''IP not allowed''))"
    by (simp add: get_client_ip_def Let_def)
qed

lemma split_example_1:
  "split_comma_space [] ''10.0.0.1, 127.0.0.1, 172.255.248.29'' =
     [''10.0.0.1''] @ ''127.0.0.1'' # [''172.255.248.29'']"
  by simp

lemma split_example_2: "split_comma_space [] ''10.0.0.1, 10.0.0.2'' = [''10.0.0.1'', ''10.0.0.2'']"
  by simp

theorem forwarded_for_first_allowed_witness:
  "get_client_ip
     ((example_request ''172.255.248.12'' [(''X-Forwarded-For'', ''10.0.0.1, 127.0.0.1, 172.255.248.29'')]
         paid_body paid_json) \<lparr>client_host := ''10.0.0.5''\<rparr>) = (Inr ''127.0.0.1'', [])
   \<and> fst (get_client_ip
        (example_request ''172.255.248.12'' [(''X-Forwarded-For'', ''10.0.0.1, 10.0.0.2'')]
           paid_body paid_json)) = Inr ''172.255.248.12''"
proof
  let ?r = "example_request ''172.255.248.12''
              [(''X-Forwarded-For'', ''10.0.0.1, 127.0.0.1, 172.255.248.29'')] paid_body paid_json"
  have "headers ?r ''X-Forwarded-For'' = Some ''10.0.0.1, 127.0.0.1, 172.255.248.29'' \<and>
        split_comma_space [] ''10.0.0.1, 127.0.0.1, 172.255.248.29'' =
          [''10.0.0.1''] @ ''127.0.0.1'' # [''172.255.248.29''] \<and>
        set [''10.0.0.1''] \<inter> ALLOWED_IPS = {} \<and> ''127.0.0.1'' \<in> ALLOWED_IPS"
    by (simp add: example_request_def ALLOWED_IPS_def split_example_1)
  with forwarded_for_first_allowed
         [of ?r "''10.0.0.1, 127.0.0.1, 172.255.248.29''" "[''10.0.0.1'']" "''127.0.0.1''"
             "[''172.255.248.29'']" "''10.0.0.5''"]
  show "get_client_ip (?r\<lparr>client_host := ''10.0.0.5''\<rparr>) = (Inr ''127.0.0.1'', [])"
    by blast
next
  let ?r = "example_request ''172.255.248.12''
              [(''X-Forwarded-For'', ''10.0.0.1, 10.0.0.2'')] paid_body paid_json"
  have h: "headers ?r ''X-Forwarded-For'' = Some ''10.0.0.1, 10.0.0.2'' \<and>
        set (split_comma_space [] ''10.0.0.1, 10.0.0.2'') \<inter> ALLOWED_IPS = {}"
    by (simp add: example_request_def ALLOWED_IPS_def split_example_2)
  have p: "client_host ?r \<in> ALLOWED_IPS"
    by (simp add: example_request_def ALLOWED_IPS_def)
  from h forwarded_for_first_allowed [of ?r "''10.0.0.1, 10.0.0.2''"]
  have "fst (get_client_ip ?r) =
          (if client_host ?r \<in> ALLOWED_IPS then Inr (client_host ?r)
           else Inl (HTTPException 403 ''IP not allowed''))"
    by blast
  with p show "fst (get_client_ip ?r) = Inr ''172.255.248.12''"
    by (simp add: example_request_def)
qed

subsection \<open>Construction and registration\<close>

text \<open>
  C9. Registering a handler through the success registration appends it to the end of the
  success list, returns the same handler and leaves the failure list as it was; the
  failure registration does the same with the roles of the lists exchanged; registering
  one handler twice appends it twice.
\<close>

theorem registration_appends:
  "fst (successful_handler self func) = func
   \<and> successful_callbacks (snd (successful_handler self func)) = successful_callbacks self @ [func]
   \<and> failed_callbacks (snd (successful_handler self func)) = failed_callbacks self
   \<and> fst (failed_handler self func) = func
   \<and> failed_callbacks (snd (failed_handler self func)) = failed_callbacks self @ [func]
   \<and> successful_callbacks (snd (failed_handler self func)) = successful_callbacks self
   \<and> successful_callbacks (snd (successful_handler (snd (successful_handler self func)) func))
       = successful_callbacks self @ [func, func]
   \<and> failed_callbacks (snd (failed_handler (snd (failed_handler self func)) func))
       = failed_callbacks self @ [func, func]"
  by (simp add: successful_handler_def failed_handler_def)

text \<open>
  C10. The constructor is to store an endpoint that begins with \<open>/\<close>, whatever string it is
  given. On the empty string it does not: \<^verbatim>\<open>webhook_endpoint[0]\<close> raises \<^verbatim>\<open>IndexError\<close> and
  no manager is built.
\<close>

theorem init_empty_endpoint_raises_index_error:
  "(init \<lparr> WalletPayAPI.api_key = ''secret'' \<rparr> ''0.0.0.0'' 9123 ''''
      :: exn + (event, string list) WebhookManager) = Inl IndexError"
  by (simp add: init_def)

text \<open>
  On every other string the constructor does what C10 says: it returns a manager whose
  stored endpoint is the given string with \<open>/\<close> put in front when its first character is
  not \<open>/\<close>, and the given string itself otherwise; so the stored endpoint begins with \<open>/\<close>.
\<close>

theorem init_endpoint_normalised:
  assumes "endpoint \<noteq> []"
  shows "\<exists>m. init cl h p endpoint = Inr m
           \<and> webhook_endpoint m = (if hd endpoint \<noteq> CHR ''/'' then ''/'' @ endpoint else endpoint)
           \<and> hd (webhook_endpoint m) = CHR ''/''
           \<and> successful_callbacks m = [] \<and> failed_callbacks m = []"
  using assms by (cases endpoint) (simp_all add: init_def)

theorem init_endpoint_normalised_witness:
  "\<exists>m :: (event, string list) WebhookManager.
     init \<lparr> WalletPayAPI.api_key = ''secret'' \<rparr> ''0.0.0.0'' 9123 ''wp_webhook'' = Inr m
       \<and> webhook_endpoint m = ''/wp_webhook''"
proof -
  have ne: "''wp_webhook'' \<noteq> []" by simp
  from init_endpoint_normalised [OF ne, of "\<lparr> WalletPayAPI.api_key = ''secret'' \<rparr>" "''0.0.0.0''" 9123]
  obtain m :: "(event, string list) WebhookManager"
    where "init \<lparr> WalletPayAPI.api_key = ''secret'' \<rparr> ''0.0.0.0'' 9123 ''wp_webhook'' = Inr m"
      and "webhook_endpoint m =
             (if hd ''wp_webhook'' \<noteq> CHR ''/'' then ''/'' @ ''wp_webhook'' else ''wp_webhook'')"
    by blast
  then show ?thesis by simp
qed

subsection \<open>The handler, gate by gate\<close>

lemma handle_webhook_rejected_ip:
  "fst (get_client_ip req) = Inl e \<Longrightarrow>
   handle_webhook C self req w =
     (Inl (HTTPException 403 ''IP not allowed''), [''IP '' @ client_host req @ '' not allowed''], w)"
  by (simp add: handle_webhook_def get_client_ip_Inl)

lemma handle_webhook_not_json:
  "fst (get_client_ip req) = Inr ip \<Longrightarrow> json req = None \<Longrightarrow>
   handle_webhook C self req w = (Inl JSONDecodeError, [''Incoming webhook from '' @ ip], w)"
  by (simp add: handle_webhook_def get_client_ip_Inr)

lemma handle_webhook_compare:
  "fst (get_client_ip req) = Inr ip \<Longrightarrow> json req = Some data \<Longrightarrow>
   handle_webhook C self req w =
     (case compare_digest (expected_signature_b64 C self req) (headers req ''Walletpay-Signature'') of
        Inl e \<Rightarrow> (Inl e, [''Incoming webhook from '' @ ip], w)
      | Inr ok \<Rightarrow>
          if ok then (fst (dispatch C self data w), [''Incoming webhook from '' @ ip],
                      snd (dispatch C self data w))
          else (Inl (HTTPException 400 ''Invalid signature''),
                [''Incoming webhook from '' @ ip,
                 ''Invalid signature. Expected: '' @ expected_signature_b64 C self req @
                 '' Get from header: '' @ format_opt (headers req ''Walletpay-Signature'')],
                w))"
  by (simp add: handle_webhook_def get_client_ip_Inr Let_def split: sum.splits bool.splits prod.splits)

lemma compare_digest_expected:
  "compare_digest (expected_signature_b64 C self req) sig =
     (case sig of None \<Rightarrow> Inl TypeError
      | Some s \<Rightarrow> if is_ascii s then Inr (expected_signature_b64 C self req = s) else Inl TypeError)"
  by (simp add: expected_signature_b64_def compare_digest_b64 split: option.splits)

lemma compare_digest_True_iff:
  "compare_digest (expected_signature_b64 C self req) sig = Inr True \<longleftrightarrow>
   sig = Some (expected_signature_b64 C self req)"
proof (cases sig)
  case None
  then show ?thesis by (simp add: compare_digest_expected)
next
  case (Some s)
  have "is_ascii (expected_signature_b64 C self req)"
    by (simp add: expected_signature_b64_def is_ascii_b64encode)
  with Some show ?thesis by (auto simp: compare_digest_expected)
qed

lemma handle_webhook_verified:
  "fst (get_client_ip req) = Inr ip \<Longrightarrow> json req = Some data \<Longrightarrow>
   compare_digest (expected_signature_b64 C self req) (headers req ''Walletpay-Signature'') = Inr True \<Longrightarrow>
   handle_webhook C self req w =
     (fst (dispatch C self data w), [''Incoming webhook from '' @ ip], snd (dispatch C self data w))"
  by (simp add: handle_webhook_compare)

lemma run_callbacks_all_return:
  "all_return callbacks event cl w \<Longrightarrow>
   run_callbacks callbacks event cl w = (None, invoke_in_order callbacks event cl w)"
  by (induction callbacks arbitrary: w) (auto simp: invoke_in_order_def split: prod.splits)

lemma run_callbacks_first_raise:
  "all_return before event cl w \<Longrightarrow>
   callback event cl (invoke_in_order before event cl w) = (Some e, w') \<Longrightarrow>
   run_callbacks (before @ callback # rest) event cl w = (Some e, w')"
  by (induction before arbitrary: w) (auto simp: invoke_in_order_def split: prod.splits)

subsection \<open>The concrete requests, evaluated\<close>

lemma signed_request_fields:
  "client_host (signed_request raw parsed s) = ''127.0.0.1''"
  "json (signed_request raw parsed s) = parsed"
  "body (signed_request raw parsed s) = raw"
  "headers (signed_request raw parsed s) ''Walletpay-Signature'' = Some s"
  "headers (signed_request raw parsed s) ''WalletPay-Timestamp'' = Some ''1700000000''"
  "headers (signed_request raw parsed s) ''X-Original-URI'' = None"
  "headers (signed_request raw parsed s) ''X-Forwarded-For'' = None"
  by (simp_all add: signed_request_def example_request_def)

lemma signed_request_ip: "get_client_ip (signed_request raw parsed s) = (Inr ''127.0.0.1'', [])"
  by (simp add: get_client_ip_def get_x_forwarded_for_def signed_request_fields ALLOWED_IPS_def)

lemma signed_request_message:
  "canonical_message (signed_request raw parsed s) =
     ''POST./wp_webhook.1700000000.'' @ b64encode raw"
  by (simp add: canonical_message_def request_path_def format_opt_def signed_request_fields)
     (simp add: signed_request_def example_request_def)

lemma b64encode_bodies:
  "b64encode paid_body = ''W3sidHlwZSI6Ik9SREVSX1BBSUQifV0=''"
  "b64encode failed_body = ''W3sidHlwZSI6Ik9SREVSX0ZBSUxFRCJ9XQ==''"
  "b64encode refund_body = ''W3sidHlwZSI6IlJFRlVORCJ9XQ==''"
  "b64encode ''[]'' = ''W10=''"
  "b64encode ''[{'' = ''W3s=''"
  by (simp_all add: paid_body_def failed_body_def refund_body_def b64_char_def b64_table_def)

lemma example_expected:
  "expected_signature_b64 example_env (example_manager on_paid on_failed) req =
     b64encode (example_mac ''secret'' (utf8 (canonical_message req)))"
  by (simp add: expected_signature_b64_def example_env_def example_manager_def utf8_def utf8_char_def)

lemma example_mac_paid:
  "example_mac ''secret'' (utf8 ''POST./wp_webhook.1700000000.W3sidHlwZSI6Ik9SREVSX1BBSUQifV0='') = ''nm''"
  by (simp add: utf8_def utf8_char_def example_mac_def b64_char_def b64_table_def)

lemma example_mac_failed:
  "example_mac ''secret'' (utf8 ''POST./wp_webhook.1700000000.W3sidHlwZSI6Ik9SREVSX0ZBSUxFRCJ9XQ=='') = ''Vf''"
  by (simp add: utf8_def utf8_char_def example_mac_def b64_char_def b64_table_def)

lemma example_mac_refund:
  "example_mac ''secret'' (utf8 ''POST./wp_webhook.1700000000.W3sidHlwZSI6IlJFRlVORCJ9XQ=='') = ''tV''"
  by (simp add: utf8_def utf8_char_def example_mac_def b64_char_def b64_table_def)

lemma example_mac_empty_array:
  "example_mac ''secret'' (utf8 ''POST./wp_webhook.1700000000.W10='') = ''rK''"
  by (simp add: utf8_def utf8_char_def example_mac_def b64_char_def b64_table_def)

lemma example_mac_not_json:
  "example_mac ''secret'' (utf8 ''POST./wp_webhook.1700000000.W3s='') = ''pp''"
  by (simp add: utf8_def utf8_char_def example_mac_def b64_char_def b64_table_def)

lemma b64encode_macs:
  "b64encode ''nm'' = ''bm0=''" "b64encode ''Vf'' = ''VmY=''" "b64encode ''tV'' = ''dFY=''"
  "b64encode ''rK'' = ''cks=''" "b64encode ''pp'' = ''cHA=''"
  by (simp_all add: b64_char_def b64_table_def)

lemma expected_signed:
  "expected_signature_b64 example_env (example_manager ps fs) (signed_request paid_body j s) = ''bm0=''"
  "expected_signature_b64 example_env (example_manager ps fs) (signed_request failed_body j s) = ''VmY=''"
  "expected_signature_b64 example_env (example_manager ps fs) (signed_request refund_body j s) = ''dFY=''"
  "expected_signature_b64 example_env (example_manager ps fs) (signed_request ''[]'' j s) = ''cks=''"
  "expected_signature_b64 example_env (example_manager ps fs) (signed_request ''[{'' j s) = ''cHA=''"
  by (simp_all only: example_expected signed_request_message b64encode_bodies append.simps
        example_mac_paid example_mac_failed example_mac_refund example_mac_empty_array
        example_mac_not_json b64encode_macs)

lemma make_event_examples:
  "make_event example_env (JArray [JObject [(''type'', JString t)]]) =
     Inr \<lparr> kind = JString t, payload = JObject [(''type'', JString t)] \<rparr>"
  "event_type example_env = kind"
  by (simp_all add: make_event_def getitem0_def example_env_def example_Event_def)

subsection \<open>Admission\<close>

text \<open>
  C4. The resolver returns normally exactly when the forwarding header has an allowed
  candidate or the peer address is allowed; the address it returns is always allowed;
  otherwise it raises HTTP 403 with the detail \<open>IP not allowed\<close>, and the handler ends
  with that exception: nothing of the request beyond the peer address is looked at, no
  callback runs and the application's state is as before.
\<close>

theorem client_ip_admission:
  "((\<exists>ip. fst (get_client_ip req) = Inr ip) \<longleftrightarrow>
      (\<exists>h. headers req ''X-Forwarded-For'' = Some h \<and>
           set (split_comma_space [] h) \<inter> ALLOWED_IPS \<noteq> {})
      \<or> client_host req \<in> ALLOWED_IPS)
   \<and> (fst (get_client_ip req) = Inr ip \<longrightarrow> ip \<in> ALLOWED_IPS)
   \<and> ((\<forall>a. fst (get_client_ip req) \<noteq> Inr a) \<longrightarrow>
        get_client_ip req =
          (Inl (HTTPException 403 ''IP not allowed''),
           [''IP '' @ client_host req @ '' not allowed''])
        \<and> handle_webhook C self req w =
          (Inl (HTTPException 403 ''IP not allowed''),
           [''IP '' @ client_host req @ '' not allowed''], w))"
proof (intro conjI impI)
  show "(\<exists>ip. fst (get_client_ip req) = Inr ip) \<longleftrightarrow>
      (\<exists>h. headers req ''X-Forwarded-For'' = Some h \<and>
           set (split_comma_space [] h) \<inter> ALLOWED_IPS \<noteq> {})
      \<or> client_host req \<in> ALLOWED_IPS"
  proof (cases "get_x_forwarded_for (headers req)")
    case None
    then have "\<not> (\<exists>h. headers req ''X-Forwarded-For'' = Some h \<and>
           set (split_comma_space [] h) \<inter> ALLOWED_IPS \<noteq> {})"
      by (auto simp: get_x_forwarded_for_None_iff split: option.splits)
    moreover from None have "(\<exists>ip. fst (get_client_ip req) = Inr ip) \<longleftrightarrow> client_host req \<in> ALLOWED_IPS"
      using get_client_ip_cases [of req] by auto
    ultimately show ?thesis by blast
  next
    case (Some ip)
    then have "\<exists>h. headers req ''X-Forwarded-For'' = Some h \<and>
           set (split_comma_space [] h) \<inter> ALLOWED_IPS \<noteq> {}"
      using get_x_forwarded_for_Some [of "headers req" ip] by blast
    moreover from Some have "\<exists>a. fst (get_client_ip req) = Inr a"
      using get_client_ip_cases [of req] by auto
    ultimately show ?thesis by blast
  qed
next
  assume "fst (get_client_ip req) = Inr ip"
  then show "ip \<in> ALLOWED_IPS"
    using get_client_ip_cases [of req] get_x_forwarded_for_Some [of "headers req" ip] by auto
next
  assume none: "\<forall>a. fst (get_client_ip req) \<noteq> Inr a"
  then obtain e where e: "fst (get_client_ip req) = Inl e"
    by (cases "fst (get_client_ip req)") auto
  then show "get_client_ip req =
          (Inl (HTTPException 403 ''IP not allowed''),
           [''IP '' @ client_host req @ '' not allowed''])"
    by (rule get_client_ip_Inl)
  from e show "handle_webhook C self req w =
          (Inl (HTTPException 403 ''IP not allowed''),
           [''IP '' @ client_host req @ '' not allowed''], w)"
    by (rule handle_webhook_rejected_ip)
qed

lemma outsider_rejected:
  "get_client_ip (example_request ''10.0.0.5'' [] raw parsed) =
     (Inl (HTTPException 403 ''IP not allowed''), [''IP 10.0.0.5 not allowed''])"
  by (simp add: get_client_ip_def get_x_forwarded_for_def example_request_def ALLOWED_IPS_def)

theorem client_ip_admission_witness:
  "''127.0.0.1'' \<in> ALLOWED_IPS
   \<and> fst (get_client_ip (signed_request paid_body paid_json ''bm0='')) = Inr ''127.0.0.1''
   \<and> handle_webhook example_env (example_manager [mark ''paid 1''] [])
        (example_request ''10.0.0.5'' [] paid_body paid_json) [] =
      (Inl (HTTPException 403 ''IP not allowed''), [''IP 10.0.0.5 not allowed''], [])"
proof (intro conjI)
  have ok: "fst (get_client_ip (signed_request paid_body paid_json ''bm0='')) = Inr ''127.0.0.1''"
    by (simp add: signed_request_ip)
  then show "fst (get_client_ip (signed_request paid_body paid_json ''bm0='')) = Inr ''127.0.0.1''" .
  from ok client_ip_admission
            [of "signed_request paid_body paid_json ''bm0=''" "''127.0.0.1''" example_env
                "example_manager [mark ''paid 1''] []" "[]"]
  show "''127.0.0.1'' \<in> ALLOWED_IPS" by blast
  let ?r = "example_request ''10.0.0.5'' [] paid_body paid_json"
  have no: "\<forall>a. fst (get_client_ip ?r) \<noteq> Inr a"
    by (simp add: outsider_rejected)
  have "client_host ?r = ''10.0.0.5''" by (simp add: example_request_def)
  with no client_ip_admission
         [of ?r "''10.0.0.5''" example_env "example_manager [mark ''paid 1''] []" "[]"]
  show "handle_webhook example_env (example_manager [mark ''paid 1''] []) ?r [] =
      (Inl (HTTPException 403 ''IP not allowed''), [''IP 10.0.0.5 not allowed''], [])"
    by simp
qed

subsection \<open>Dispatch\<close>

text \<open>
  C1 as stated fails when a callback raises: the handler has no handler for exceptions
  around the loop, so the exception ends the request, the callbacks after the raising one
  are not invoked and no response body is returned. Here the gates pass and the event is
  \<open>ORDER_PAID\<close>; the second of three success callbacks raises.
\<close>

theorem dispatch_raising_callback_counterexample:
  "fst (get_client_ip (signed_request paid_body paid_json ''bm0='')) = Inr ''127.0.0.1''
   \<and> compare_digest
        (expected_signature_b64 example_env
           (example_manager [mark ''paid 1'', failing ''boom'', mark ''paid 3''] [])
           (signed_request paid_body paid_json ''bm0=''))
        (headers (signed_request paid_body paid_json ''bm0='') ''Walletpay-Signature'') = Inr True
   \<and> make_event example_env (JArray [JObject [(''type'', JString ''ORDER_PAID'')]]) =
        Inr \<lparr> kind = JString ''ORDER_PAID'', payload = JObject [(''type'', JString ''ORDER_PAID'')] \<rparr>
   \<and> handle_webhook example_env
        (example_manager [mark ''paid 1'', failing ''boom'', mark ''paid 3''] [])
        (signed_request paid_body paid_json ''bm0='') [] =
      (Inl (Raised ''boom''), [''Incoming webhook from 127.0.0.1''], [''paid 1''])"
proof (intro conjI)
  let ?m = "example_manager [mark ''paid 1'', failing ''boom'', mark ''paid 3''] []"
  let ?r = "signed_request paid_body paid_json ''bm0=''"
  show ip: "fst (get_client_ip ?r) = Inr ''127.0.0.1''"
    by (simp add: signed_request_ip)
  show sig: "compare_digest (expected_signature_b64 example_env ?m ?r)
               (headers ?r ''Walletpay-Signature'') = Inr True"
    by (simp add: signed_request_fields expected_signed compare_digest_def is_ascii_def)
  show ev: "make_event example_env (JArray [JObject [(''type'', JString ''ORDER_PAID'')]]) =
        Inr \<lparr> kind = JString ''ORDER_PAID'', payload = JObject [(''type'', JString ''ORDER_PAID'')] \<rparr>"
    by (simp add: make_event_examples)
  have data: "json ?r = Some (JArray [JObject [(''type'', JString ''ORDER_PAID'')]])"
    by (simp add: signed_request_fields paid_json_def)
  have "dispatch example_env ?m (JArray [JObject [(''type'', JString ''ORDER_PAID'')]]) [] =
          (Inl (Raised ''boom''), [''paid 1''])"
    by (simp add: dispatch_def make_event_examples example_manager_def mark_def failing_def)
  with handle_webhook_verified [OF ip data sig, of "[]"]
  show "handle_webhook example_env ?m ?r [] =
      (Inl (Raised ''boom''), [''Incoming webhook from 127.0.0.1''], [''paid 1''])"
    by simp
qed

text \<open>
  C1, amended. For every request that passes the IP and signature gates and whose event
  is built: if the event's type is \<open>ORDER_PAID\<close> and every success callback returns
  normally when its turn comes, then every success callback is invoked once, in
  registration order, and the response is the message \<open>Successful event processed!\<close>;
  the same holds for \<open>ORDER_FAILED\<close>, the failure callbacks and \<open>Failed event processed!\<close>;
  for any other type no callback is invoked and the response is the message
  \<open>Webhook received with unknown status!\<close>.
\<close>

theorem dispatch_by_event_type:
  assumes ip: "fst (get_client_ip req) = Inr ip"
    and data: "json req = Some data"
    and sig: "compare_digest (expected_signature_b64 C self req)
                (headers req ''Walletpay-Signature'') = Inr True"
    and ev: "make_event C data = Inr event"
  shows "(event_type C event = JString ''ORDER_PAID'' \<and>
          all_return (successful_callbacks self) event (client self) w \<longrightarrow>
            handle_webhook C self req w =
              (Inr [(''message'', ''Successful event processed!'')],
               [''Incoming webhook from '' @ ip],
               invoke_in_order (successful_callbacks self) event (client self) w))
       \<and> (event_type C event = JString ''ORDER_FAILED'' \<and>
          all_return (failed_callbacks self) event (client self) w \<longrightarrow>
            handle_webhook C self req w =
              (Inr [(''message'', ''Failed event processed!'')],
               [''Incoming webhook from '' @ ip],
               invoke_in_order (failed_callbacks self) event (client self) w))
       \<and> (event_type C event \<noteq> JString ''ORDER_PAID'' \<and>
          event_type C event \<noteq> JString ''ORDER_FAILED'' \<longrightarrow>
            handle_webhook C self req w =
              (Inr [(''message'', ''Webhook received with unknown status!'')],
               [''Incoming webhook from '' @ ip], w))"
proof -
  note hw = handle_webhook_verified [OF ip data sig, of w]
  show ?thesis
    by (simp add: hw dispatch_def ev run_callbacks_all_return)
qed

theorem dispatch_by_event_type_witness:
  "handle_webhook example_env (example_manager [mark ''paid 1'', mark ''paid 2''] [mark ''failed 1''])
     (signed_request paid_body paid_json ''bm0='') [] =
     (Inr [(''message'', ''Successful event processed!'')],
      [''Incoming webhook from 127.0.0.1''], [''paid 1'', ''paid 2''])
   \<and> handle_webhook example_env (example_manager [mark ''paid 1'', mark ''paid 2''] [mark ''failed 1''])
     (signed_request failed_body failed_json ''VmY='') [] =
     (Inr [(''message'', ''Failed event processed!'')],
      [''Incoming webhook from 127.0.0.1''], [''failed 1''])
   \<and> handle_webhook example_env (example_manager [mark ''paid 1'', mark ''paid 2''] [mark ''failed 1''])
     (signed_request refund_body refund_json ''dFY='') [] =
     (Inr [(''message'', ''Webhook received with unknown status!'')],
      [''Incoming webhook from 127.0.0.1''], [])"
proof (intro conjI)
  let ?m = "example_manager [mark ''paid 1'', mark ''paid 2''] [mark ''failed 1'']"
  let ?paid = "signed_request paid_body paid_json ''bm0=''"
  let ?failed = "signed_request failed_body failed_json ''VmY=''"
  let ?refund = "signed_request refund_body refund_json ''dFY=''"
  have ip: "fst (get_client_ip ?paid) = Inr ''127.0.0.1''"
    "fst (get_client_ip ?failed) = Inr ''127.0.0.1''"
    "fst (get_client_ip ?refund) = Inr ''127.0.0.1''"
    by (simp_all add: signed_request_ip)
  have sig:
    "compare_digest (expected_signature_b64 example_env ?m ?paid)
       (headers ?paid ''Walletpay-Signature'') = Inr True"
    "compare_digest (expected_signature_b64 example_env ?m ?failed)
       (headers ?failed ''Walletpay-Signature'') = Inr True"
    "compare_digest (expected_signature_b64 example_env ?m ?refund)
       (headers ?refund ''Walletpay-Signature'') = Inr True"
    by (simp_all add: signed_request_fields expected_signed compare_digest_def is_ascii_def)
  have data:
    "json ?paid = Some (JArray [JObject [(''type'', JString ''ORDER_PAID'')]])"
    "json ?failed = Some (JArray [JObject [(''type'', JString ''ORDER_FAILED'')]])"
    "json ?refund = Some (JArray [JObject [(''type'', JString ''REFUND'')]])"
    by (simp_all add: signed_request_fields paid_json_def failed_json_def refund_json_def)
  note ev = make_event_examples(1)
  from dispatch_by_event_type [OF ip(1) data(1) sig(1) ev [of "''ORDER_PAID''"], of "[]"]
  show "handle_webhook example_env ?m ?paid [] =
     (Inr [(''message'', ''Successful event processed!'')],
      [''Incoming webhook from 127.0.0.1''], [''paid 1'', ''paid 2''])"
    by (simp add: make_event_examples example_manager_def invoke_in_order_def mark_def)
  from dispatch_by_event_type [OF ip(2) data(2) sig(2) ev [of "''ORDER_FAILED''"], of "[]"]
  show "handle_webhook example_env ?m ?failed [] =
     (Inr [(''message'', ''Failed event processed!'')],
      [''Incoming webhook from 127.0.0.1''], [''failed 1''])"
    by (simp add: make_event_examples example_manager_def invoke_in_order_def mark_def)
  from dispatch_by_event_type [OF ip(3) data(3) sig(3) ev [of "''REFUND''"], of "[]"]
  show "handle_webhook example_env ?m ?refund [] =
     (Inr [(''message'', ''Webhook received with unknown status!'')],
      [''Incoming webhook from 127.0.0.1''], [])"
    by (simp add: make_event_examples)
qed

subsection \<open>The canonical message\<close>

lemma proxied_request_fields:
  "client_host (proxied_request u s) = ''127.0.0.1''"
  "http_method (proxied_request u s) = ''POST''"
  "url_path (proxied_request u s) = ''/wp_webhook''"
  "json (proxied_request u s) = paid_json"
  "body (proxied_request u s) = paid_body"
  "headers (proxied_request u s) ''Walletpay-Signature'' = Some s"
  "headers (proxied_request u s) ''WalletPay-Timestamp'' = Some ''1700000000''"
  "headers (proxied_request u s) ''X-Original-URI'' = Some u"
  "headers (proxied_request u s) ''X-Forwarded-For'' = None"
  by (simp_all add: proxied_request_def example_request_def)

lemma proxied_request_ip: "get_client_ip (proxied_request u s) = (Inr ''127.0.0.1'', [])"
  by (simp add: get_client_ip_def get_x_forwarded_for_def proxied_request_fields ALLOWED_IPS_def)

text \<open>
  C2 as stated fails when the \<^verbatim>\<open>X-Original-URI\<close> header is present and empty: the code's
  \<^verbatim>\<open>or\<close> then takes the locally parsed path, where the claim takes the (empty) header
  value.
\<close>

theorem empty_original_uri_counterexample:
  "headers (proxied_request '''' ''bm0='') ''X-Original-URI'' = Some ''''
   \<and> headers (proxied_request '''' ''bm0='') ''WalletPay-Timestamp'' = Some ''1700000000''
   \<and> claimed_canonical_message (proxied_request '''' ''bm0='') ''1700000000'' =
       ''POST..1700000000.W3sidHlwZSI6Ik9SREVSX1BBSUQifV0=''
   \<and> canonical_message (proxied_request '''' ''bm0='') =
       ''POST./wp_webhook.1700000000.W3sidHlwZSI6Ik9SREVSX1BBSUQifV0=''"
  by (simp add: claimed_canonical_message_def canonical_message_def request_path_def
        format_opt_def proxied_request_fields b64encode_bodies)

text \<open>
  C2, amended. For every request that carries the \<^verbatim>\<open>WalletPay-Timestamp\<close> header, the
  canonical message equals the concatenation, joined with \<open>.\<close>, of the HTTP method, the
  path (the \<^verbatim>\<open>X-Original-URI\<close> value when that header is present and not empty, otherwise
  the locally parsed path), the \<^verbatim>\<open>WalletPay-Timestamp\<close> value and the base64 encoding of
  the raw body bytes, in that order; the expected signature is the base64 encoding of the
  HMAC-SHA256 digest of the UTF-8 bytes of that message under the UTF-8 bytes of the API
  key; the comparison with the \<^verbatim>\<open>Walletpay-Signature\<close> header succeeds exactly when the
  header holds that string, and the handler then goes on to dispatch.
\<close>

theorem canonical_message_layout:
  assumes ts: "headers req ''WalletPay-Timestamp'' = Some t"
  shows "canonical_message req =
     join_dot [http_method req,
               (case headers req ''X-Original-URI'' of
                  None \<Rightarrow> url_path req
                | Some p \<Rightarrow> if p = [] then url_path req else p),
               t, b64encode (body req)]
   \<and> expected_signature_b64 C self req =
       b64encode (hmac_sha256 C (utf8 (api_key self))
         (utf8 (join_dot [http_method req,
                          (case headers req ''X-Original-URI'' of
                             None \<Rightarrow> url_path req
                           | Some p \<Rightarrow> if p = [] then url_path req else p),
                          t, b64encode (body req)])))
   \<and> (compare_digest (expected_signature_b64 C self req) (headers req ''Walletpay-Signature'')
         = Inr True
       \<longleftrightarrow> headers req ''Walletpay-Signature'' = Some (expected_signature_b64 C self req))
   \<and> (fst (get_client_ip req) = Inr ip \<and> json req = Some data \<and>
       headers req ''Walletpay-Signature'' = Some (expected_signature_b64 C self req) \<longrightarrow>
         handle_webhook C self req w =
           (fst (dispatch C self data w), [''Incoming webhook from '' @ ip],
            snd (dispatch C self data w)))"
proof (intro conjI impI)
  show msg: "canonical_message req =
     join_dot [http_method req,
               (case headers req ''X-Original-URI'' of
                  None \<Rightarrow> url_path req
                | Some p \<Rightarrow> if p = [] then url_path req else p),
               t, b64encode (body req)]"
    using ts
    by (simp add: canonical_message_def request_path_def format_opt_def split: option.splits)
  have "expected_signature_b64 C self req =
       b64encode (hmac_sha256 C (utf8 (api_key self)) (utf8 (canonical_message req)))"
    by (simp add: expected_signature_b64_def)
  then show "expected_signature_b64 C self req =
       b64encode (hmac_sha256 C (utf8 (api_key self))
         (utf8 (join_dot [http_method req,
                          (case headers req ''X-Original-URI'' of
                             None \<Rightarrow> url_path req
                           | Some p \<Rightarrow> if p = [] then url_path req else p),
                          t, b64encode (body req)])))"
    by (simp only: msg)
  show "compare_digest (expected_signature_b64 C self req) (headers req ''Walletpay-Signature'')
         = Inr True
       \<longleftrightarrow> headers req ''Walletpay-Signature'' = Some (expected_signature_b64 C self req)"
    by (rule compare_digest_True_iff)
next
  assume a: "fst (get_client_ip req) = Inr ip \<and> json req = Some data \<and>
       headers req ''Walletpay-Signature'' = Some (expected_signature_b64 C self req)"
  then have "compare_digest (expected_signature_b64 C self req)
               (headers req ''Walletpay-Signature'') = Inr True"
    by (simp only: compare_digest_True_iff)
  with a show "handle_webhook C self req w =
           (fst (dispatch C self data w), [''Incoming webhook from '' @ ip],
            snd (dispatch C self data w))"
    by (simp add: handle_webhook_verified)
qed

lemma example_mac_proxied:
  "example_mac ''secret'' (utf8 ''POST./hooks/wp.1700000000.W3sidHlwZSI6Ik9SREVSX1BBSUQifV0='') = ''/t''"
  by (simp add: utf8_def utf8_char_def example_mac_def b64_char_def b64_table_def)

lemma b64encode_mac_proxied: "b64encode ''/t'' = ''L3Q=''"
  by (simp add: b64_char_def b64_table_def)

theorem canonical_message_layout_witness:
  "canonical_message (proxied_request ''/hooks/wp'' ''L3Q='') =
     ''POST./hooks/wp.1700000000.W3sidHlwZSI6Ik9SREVSX1BBSUQifV0=''
   \<and> expected_signature_b64 example_env (example_manager [mark ''paid 1''] [])
       (proxied_request ''/hooks/wp'' ''L3Q='') = ''L3Q=''
   \<and> handle_webhook example_env (example_manager [mark ''paid 1''] [])
       (proxied_request ''/hooks/wp'' ''L3Q='') [] =
     (Inr [(''message'', ''Successful event processed!'')],
      [''Incoming webhook from 127.0.0.1''], [''paid 1''])"
proof -
  let ?m = "example_manager [mark ''paid 1''] []"
  let ?r = "proxied_request ''/hooks/wp'' ''L3Q=''"
  let ?d = "JArray [JObject [(''type'', JString ''ORDER_PAID'')]]"
  have ts: "headers ?r ''WalletPay-Timestamp'' = Some ''1700000000''"
    by (simp add: proxied_request_fields)
  note layout = canonical_message_layout
    [OF ts, where C = example_env and self = ?m and ip = "''127.0.0.1''" and data = ?d
       and w = "[]"]
  from layout have msg: "canonical_message ?r =
      ''POST./hooks/wp.1700000000.W3sidHlwZSI6Ik9SREVSX1BBSUQifV0=''"
    by (simp add: proxied_request_fields b64encode_bodies)
  have ex: "expected_signature_b64 example_env ?m ?r = ''L3Q=''"
    by (simp only: example_expected msg example_mac_proxied b64encode_mac_proxied)
  have pre: "fst (get_client_ip ?r) = Inr ''127.0.0.1'' \<and> json ?r = Some ?d \<and>
       headers ?r ''Walletpay-Signature'' = Some (expected_signature_b64 example_env ?m ?r)"
    by (simp add: proxied_request_ip proxied_request_fields paid_json_def ex)
  with layout have "handle_webhook example_env ?m ?r [] =
      (fst (dispatch example_env ?m ?d []), [''Incoming webhook from '' @ ''127.0.0.1''],
       snd (dispatch example_env ?m ?d []))"
    by blast
  moreover have "dispatch example_env ?m ?d [] =
      (Inr [(''message'', ''Successful event processed!'')], [''paid 1''])"
    by (simp add: dispatch_def make_event_examples example_manager_def mark_def)
  ultimately show ?thesis using msg ex by simp
qed

subsection \<open>Signature verification\<close>

lemma expected_signature_frame:
  "expected_signature_b64 (C\<lparr>Event := E, event_type := T\<rparr>)
     (self\<lparr>successful_callbacks := ps, failed_callbacks := fs\<rparr>) req =
   expected_signature_b64 C self req"
  by (simp add: expected_signature_b64_def)

lemma handle_webhook_mismatch:
  assumes ip: "fst (get_client_ip req) = Inr ip"
    and data: "json req = Some data"
    and ne: "headers req ''Walletpay-Signature'' \<noteq> Some (expected_signature_b64 C self req)"
  shows "handle_webhook C self req w =
     (case headers req ''Walletpay-Signature'' of
        None \<Rightarrow> (Inl TypeError, [''Incoming webhook from '' @ ip], w)
      | Some s \<Rightarrow>
          if is_ascii s
          then (Inl (HTTPException 400 ''Invalid signature''),
                [''Incoming webhook from '' @ ip,
                 ''Invalid signature. Expected: '' @ expected_signature_b64 C self req @
                 '' Get from header: '' @ s], w)
          else (Inl TypeError, [''Incoming webhook from '' @ ip], w))"
  using ne
  by (auto simp: handle_webhook_compare [OF ip data] compare_digest_expected format_opt_def
           split: option.splits)

text \<open>
  C7 as stated fails when the body is not valid JSON: \<^verbatim>\<open>await request.json()\<close> is called
  before the signature is checked, so the JSON decoder's exception ends the request and
  no HTTP 400 with \<open>Invalid signature\<close> is raised. Here the peer is allowed and the
  signature header differs from the expected one.
\<close>

theorem invalid_signature_not_json_counterexample:
  "fst (get_client_ip (signed_request ''[{'' None ''AAAA'')) = Inr ''127.0.0.1''
   \<and> headers (signed_request ''[{'' None ''AAAA'') ''Walletpay-Signature'' = Some ''AAAA''
   \<and> expected_signature_b64 example_env (example_manager [mark ''paid 1''] [])
       (signed_request ''[{'' None ''AAAA'') = ''cHA=''
   \<and> handle_webhook example_env (example_manager [mark ''paid 1''] [])
       (signed_request ''[{'' None ''AAAA'') [] =
     (Inl JSONDecodeError, [''Incoming webhook from 127.0.0.1''], [])"
proof (intro conjI)
  show ip: "fst (get_client_ip (signed_request ''[{'' None ''AAAA'')) = Inr ''127.0.0.1''"
    by (simp add: signed_request_ip)
  show "headers (signed_request ''[{'' None ''AAAA'') ''Walletpay-Signature'' = Some ''AAAA''"
    by (simp add: signed_request_fields)
  show "expected_signature_b64 example_env (example_manager [mark ''paid 1''] [])
       (signed_request ''[{'' None ''AAAA'') = ''cHA=''"
    by (simp add: expected_signed)
  have "json (signed_request ''[{'' None ''AAAA'') = None"
    by (simp add: signed_request_fields)
  from handle_webhook_not_json [OF ip this]
  show "handle_webhook example_env (example_manager [mark ''paid 1''] [])
       (signed_request ''[{'' None ''AAAA'') [] =
     (Inl JSONDecodeError, [''Incoming webhook from 127.0.0.1''], [])"
    by simp
qed

text \<open>
  C7, amended. For every request that passes the IP gate and whose
  \<^verbatim>\<open>Walletpay-Signature\<close> header does not hold the expected signature: the handler ends
  with an exception, the application's state is untouched, and the outcome is the same
  whatever the \<open>Event\<close> class and the registered callbacks are (no event is built or
  classified and no callback is invoked); when moreover the body parses as JSON and the
  header is present and ASCII, the exception is HTTP 400 with the detail
  \<open>Invalid signature\<close>.
\<close>

theorem invalid_signature_rejected:
  assumes ip: "fst (get_client_ip req) = Inr ip"
    and ne: "headers req ''Walletpay-Signature'' \<noteq> Some (expected_signature_b64 C self req)"
  shows "(\<exists>e lg. handle_webhook C self req w = (Inl e, lg, w))
     \<and> handle_webhook (C\<lparr>Event := E, event_type := T\<rparr>)
         (self\<lparr>successful_callbacks := ps, failed_callbacks := fs\<rparr>) req w =
       handle_webhook C self req w
     \<and> (json req = Some data \<and> headers req ''Walletpay-Signature'' = Some s \<and> is_ascii s \<longrightarrow>
          handle_webhook C self req w =
            (Inl (HTTPException 400 ''Invalid signature''),
             [''Incoming webhook from '' @ ip,
              ''Invalid signature. Expected: '' @ expected_signature_b64 C self req @
              '' Get from header: '' @ s], w))"
proof (cases "json req")
  case None
  then show ?thesis
    by (simp add: handle_webhook_not_json [OF ip])
next
  case (Some d)
  let ?C' = "C\<lparr>Event := E, event_type := T\<rparr>"
  let ?self' = "self\<lparr>successful_callbacks := ps, failed_callbacks := fs\<rparr>"
  have ne': "headers req ''Walletpay-Signature'' \<noteq> Some (expected_signature_b64 ?C' ?self' req)"
    using ne by (simp add: expected_signature_frame)
  note a = handle_webhook_mismatch [OF ip Some ne, of w]
  note b = handle_webhook_mismatch [OF ip Some ne', of w]
  have "\<exists>e lg. handle_webhook C self req w = (Inl e, lg, w)"
    by (simp add: a split: option.splits)
  moreover have "handle_webhook ?C' ?self' req w = handle_webhook C self req w"
    by (simp only: a b expected_signature_frame)
  moreover have "json req = Some data \<and> headers req ''Walletpay-Signature'' = Some s \<and> is_ascii s \<longrightarrow>
          handle_webhook C self req w =
            (Inl (HTTPException 400 ''Invalid signature''),
             [''Incoming webhook from '' @ ip,
              ''Invalid signature. Expected: '' @ expected_signature_b64 C self req @
              '' Get from header: '' @ s], w)"
    by (simp add: a)
  ultimately show ?thesis by blast
qed

theorem invalid_signature_rejected_witness:
  "handle_webhook example_env (example_manager [mark ''paid 1''] [])
     (signed_request paid_body paid_json ''AAAA'') [] =
     (Inl (HTTPException 400 ''Invalid signature''),
      [''Incoming webhook from 127.0.0.1'',
       ''Invalid signature. Expected: bm0= Get from header: AAAA''], [])"
proof -
  let ?m = "example_manager [mark ''paid 1''] []"
  let ?r = "signed_request paid_body paid_json ''AAAA''"
  have ip: "fst (get_client_ip ?r) = Inr ''127.0.0.1''"
    by (simp add: signed_request_ip)
  have ne: "headers ?r ''Walletpay-Signature'' \<noteq> Some (expected_signature_b64 example_env ?m ?r)"
    by (simp add: signed_request_fields expected_signed)
  have pre: "json ?r = paid_json \<and> headers ?r ''Walletpay-Signature'' = Some ''AAAA'' \<and> is_ascii ''AAAA''"
    by (simp add: signed_request_fields is_ascii_def)
  from invalid_signature_rejected [OF ip ne, of "[]" _ _ _ _ "the paid_json" "''AAAA''"] pre
  show ?thesis
    by (simp add: paid_json_def expected_signed)
qed

text \<open>The comparison itself: a provided signature is accepted exactly when it is the
  expected string, so a signature that differs in any one bit is not accepted.\<close>

lemma signature_accepted_iff_equal:
  "compare_digest (expected_signature_b64 C self req) (Some s) = Inr True
     \<longleftrightarrow> s = expected_signature_b64 C self req"
  using compare_digest_True_iff [of C self req "Some s"] by auto

subsection \<open>Missing headers\<close>

lemma handle_webhook_missing_signature:
  assumes ip: "fst (get_client_ip req) = Inr ip"
    and data: "json req = Some data"
    and none: "headers req ''Walletpay-Signature'' = None"
  shows "handle_webhook C self req w = (Inl TypeError, [''Incoming webhook from '' @ ip], w)"
  using none by (simp add: handle_webhook_compare [OF ip data] compare_digest_def)

text \<open>
  C5. A request from an allowed peer with a JSON body and a timestamp, but without the
  \<^verbatim>\<open>Walletpay-Signature\<close> header: \<^verbatim>\<open>hmac.compare_digest\<close> is called with \<^verbatim>\<open>None\<close> and its
  \<^verbatim>\<open>TypeError\<close> ends the request. It is not the HTTP 400 with \<open>Invalid signature\<close> that a
  failed signature check raises.
\<close>

theorem missing_signature_header_raises_type_error:
  "headers (example_request ''127.0.0.1'' [(''WalletPay-Timestamp'', ''1700000000'')]
              paid_body paid_json) ''Walletpay-Signature'' = None
   \<and> handle_webhook example_env (example_manager [mark ''paid 1''] [])
       (example_request ''127.0.0.1'' [(''WalletPay-Timestamp'', ''1700000000'')]
          paid_body paid_json) [] =
     (Inl TypeError, [''Incoming webhook from 127.0.0.1''], [])
   \<and> is_http_exception TypeError = False"
proof (intro conjI)
  let ?r = "example_request ''127.0.0.1'' [(''WalletPay-Timestamp'', ''1700000000'')]
              paid_body paid_json"
  show none: "headers ?r ''Walletpay-Signature'' = None"
    by (simp add: example_request_def)
  have ip: "fst (get_client_ip ?r) = Inr ''127.0.0.1''"
    by (simp add: get_client_ip_def get_x_forwarded_for_def example_request_def ALLOWED_IPS_def)
  have data: "json ?r = Some (JArray [JObject [(''type'', JString ''ORDER_PAID'')]])"
    by (simp add: example_request_def paid_json_def)
  from handle_webhook_missing_signature [OF ip data none]
  show "handle_webhook example_env (example_manager [mark ''paid 1''] []) ?r [] =
     (Inl TypeError, [''Incoming webhook from 127.0.0.1''], [])"
    by simp
  show "is_http_exception TypeError = False" by simp
qed

text \<open>Without the \<^verbatim>\<open>WalletPay-Timestamp\<close> header there is no failure of its own either: the
  message is built with the text \<open>None\<close>, and a signature over that message is accepted.\<close>

lemma example_mac_no_timestamp:
  "example_mac ''secret'' (utf8 ''POST./wp_webhook.None.W3sidHlwZSI6Ik9SREVSX1BBSUQifV0='') = ''U0''"
  by (simp add: utf8_def utf8_char_def example_mac_def b64_char_def b64_table_def)

lemma missing_timestamp_header_accepted:
  "handle_webhook example_env (example_manager [mark ''paid 1''] [])
     (example_request ''127.0.0.1'' [(''Walletpay-Signature'', ''VTA='')] paid_body paid_json) [] =
     (Inr [(''message'', ''Successful event processed!'')],
      [''Incoming webhook from 127.0.0.1''], [''paid 1''])"
proof -
  let ?m = "example_manager [mark ''paid 1''] []"
  let ?r = "example_request ''127.0.0.1'' [(''Walletpay-Signature'', ''VTA='')] paid_body paid_json"
  let ?d = "JArray [JObject [(''type'', JString ''ORDER_PAID'')]]"
  have ip: "fst (get_client_ip ?r) = Inr ''127.0.0.1''"
    by (simp add: get_client_ip_def get_x_forwarded_for_def example_request_def ALLOWED_IPS_def)
  have data: "json ?r = Some ?d"
    by (simp add: example_request_def paid_json_def)
  have msg: "canonical_message ?r = ''POST./wp_webhook.None.W3sidHlwZSI6Ik9SREVSX1BBSUQifV0=''"
    by (simp add: canonical_message_def request_path_def format_opt_def example_request_def
          b64encode_bodies)
  have "b64encode ''U0'' = ''VTA=''"
    by (simp add: b64_char_def b64_table_def)
  then have ex: "expected_signature_b64 example_env ?m ?r = ''VTA=''"
    by (simp only: example_expected msg example_mac_no_timestamp)
  have hdr: "headers ?r ''Walletpay-Signature'' = Some ''VTA=''"
    by (simp add: example_request_def)
  have sig: "compare_digest (expected_signature_b64 example_env ?m ?r)
               (headers ?r ''Walletpay-Signature'') = Inr True"
    by (simp add: ex hdr compare_digest_def is_ascii_def)
  have "dispatch example_env ?m ?d [] =
      (Inr [(''message'', ''Successful event processed!'')], [''paid 1''])"
    by (simp add: dispatch_def make_event_examples example_manager_def mark_def)
  with handle_webhook_verified [OF ip data sig, of "[]"] show ?thesis by simp
qed

subsection \<open>Malformed payloads\<close>

text \<open>
  C6 as stated fails: the handler has no outcome of its own for a malformed payload. A
  body that is not JSON, sent by a peer that is not allowed, is answered by the IP gate
  (HTTP 403); sent by an allowed peer, even with the right signature, it ends the request
  with the JSON decoder's exception, which is not an \<open>HTTPException\<close>.
\<close>

theorem malformed_payload_counterexample:
  "json (example_request ''10.0.0.5'' [] ''[{'' None) = None
   \<and> handle_webhook example_env (example_manager [mark ''paid 1''] [])
       (example_request ''10.0.0.5'' [] ''[{'' None) [] =
     (Inl (HTTPException 403 ''IP not allowed''), [''IP 10.0.0.5 not allowed''], [])
   \<and> json (signed_request ''[{'' None ''cHA='') = None
   \<and> expected_signature_b64 example_env (example_manager [mark ''paid 1''] [])
       (signed_request ''[{'' None ''cHA='') = ''cHA=''
   \<and> handle_webhook example_env (example_manager [mark ''paid 1''] [])
       (signed_request ''[{'' None ''cHA='') [] =
     (Inl JSONDecodeError, [''Incoming webhook from 127.0.0.1''], [])
   \<and> is_http_exception JSONDecodeError = False"
proof (intro conjI)
  show "json (example_request ''10.0.0.5'' [] ''[{'' None) = None"
    by (simp add: example_request_def)
  have "fst (get_client_ip (example_request ''10.0.0.5'' [] ''[{'' None)) =
          Inl (HTTPException 403 ''IP not allowed'')"
    by (simp add: outsider_rejected)
  from handle_webhook_rejected_ip [OF this]
  show "handle_webhook example_env (example_manager [mark ''paid 1''] [])
       (example_request ''10.0.0.5'' [] ''[{'' None) [] =
     (Inl (HTTPException 403 ''IP not allowed''), [''IP 10.0.0.5 not allowed''], [])"
    by (simp add: example_request_def)
  show none: "json (signed_request ''[{'' None ''cHA='') = None"
    by (simp add: signed_request_fields)
  show "expected_signature_b64 example_env (example_manager [mark ''paid 1''] [])
       (signed_request ''[{'' None ''cHA='') = ''cHA=''"
    by (simp add: expected_signed)
  have ip: "fst (get_client_ip (signed_request ''[{'' None ''cHA='')) = Inr ''127.0.0.1''"
    by (simp add: signed_request_ip)
  from handle_webhook_not_json [OF ip none]
  show "handle_webhook example_env (example_manager [mark ''paid 1''] [])
       (signed_request ''[{'' None ''cHA='') [] =
     (Inl JSONDecodeError, [''Incoming webhook from 127.0.0.1''], [])"
    by simp
  show "is_http_exception JSONDecodeError = False" by simp
qed

text \<open>
  C6, amended. For every request whose body is not valid JSON, or whose body parses to an
  empty array, the handler ends with an exception and the application's state is
  untouched (no callback is invoked). The exception is the one of the first stage that
  fails: HTTP 403 \<open>IP not allowed\<close> when the IP gate rejects the request; otherwise the
  JSON decoder's exception when the body is not valid JSON; otherwise, for an empty
  array, HTTP 400 \<open>Invalid signature\<close> when the signature header is present, ASCII and
  differs from the expected signature, and the \<^verbatim>\<open>IndexError\<close> of \<^verbatim>\<open>data[0]\<close> when the
  signature header holds the expected signature.
\<close>

theorem malformed_payload_outcome:
  assumes bad: "json req = None \<or> json req = Some (JArray [])"
  shows "(\<exists>e lg. handle_webhook C self req w = (Inl e, lg, w))
     \<and> ((\<forall>a. fst (get_client_ip req) \<noteq> Inr a) \<longrightarrow>
          fst (handle_webhook C self req w) = Inl (HTTPException 403 ''IP not allowed''))
     \<and> (fst (get_client_ip req) = Inr ip \<and> json req = None \<longrightarrow>
          fst (handle_webhook C self req w) = Inl JSONDecodeError)
     \<and> (fst (get_client_ip req) = Inr ip \<and> json req = Some (JArray []) \<and>
        headers req ''Walletpay-Signature'' = Some s \<and> is_ascii s \<and>
        s \<noteq> expected_signature_b64 C self req \<longrightarrow>
          fst (handle_webhook C self req w) = Inl (HTTPException 400 ''Invalid signature''))
     \<and> (fst (get_client_ip req) = Inr ip \<and> json req = Some (JArray []) \<and>
        headers req ''Walletpay-Signature'' = Some (expected_signature_b64 C self req) \<longrightarrow>
          fst (handle_webhook C self req w) = Inl IndexError)"
proof -
  have dispatch_empty: "dispatch C self (JArray []) w = (Inl IndexError, w)"
    by (simp add: dispatch_def make_event_def getitem0_def)
  have rejected: "handle_webhook C self req w =
      (Inl (HTTPException 403 ''IP not allowed''), [''IP '' @ client_host req @ '' not allowed''], w)"
    if "\<forall>a. fst (get_client_ip req) \<noteq> Inr a"
  proof -
    from that obtain e where "fst (get_client_ip req) = Inl e"
      by (cases "fst (get_client_ip req)") auto
    then show ?thesis by (rule handle_webhook_rejected_ip)
  qed
  have accepted: "handle_webhook C self req w =
      (Inl IndexError, [''Incoming webhook from '' @ a], w)"
    if "fst (get_client_ip req) = Inr a" "json req = Some (JArray [])"
       "headers req ''Walletpay-Signature'' = Some (expected_signature_b64 C self req)" for a
  proof -
    from that(3) have "compare_digest (expected_signature_b64 C self req)
        (headers req ''Walletpay-Signature'') = Inr True"
      by (simp only: compare_digest_True_iff)
    from handle_webhook_verified [OF that(1) that(2) this, of w] show ?thesis
      by (simp add: dispatch_empty)
  qed
  have first: "\<exists>e lg. handle_webhook C self req w = (Inl e, lg, w)"
  proof (cases "fst (get_client_ip req)")
    case (Inl e)
    then show ?thesis by (simp add: handle_webhook_rejected_ip)
  next
    case (Inr a)
    show ?thesis
    proof (cases "json req")
      case None
      then show ?thesis by (simp add: handle_webhook_not_json [OF Inr])
    next
      case (Some d)
      with bad have d: "json req = Some (JArray [])" by simp
      show ?thesis
      proof (cases "headers req ''Walletpay-Signature'' = Some (expected_signature_b64 C self req)")
        case True
        then show ?thesis by (simp add: accepted [OF Inr d])
      next
        case False
        then show ?thesis
          by (simp add: handle_webhook_mismatch [OF Inr d] split: option.splits)
      qed
    qed
  qed
  have mismatch: "fst (handle_webhook C self req w) = Inl (HTTPException 400 ''Invalid signature'')"
    if "fst (get_client_ip req) = Inr ip \<and> json req = Some (JArray []) \<and>
        headers req ''Walletpay-Signature'' = Some s \<and> is_ascii s \<and>
        s \<noteq> expected_signature_b64 C self req"
  proof -
    from that have "headers req ''Walletpay-Signature'' \<noteq> Some (expected_signature_b64 C self req)"
      by auto
    with that show ?thesis
      by (simp add: handle_webhook_mismatch [of req ip "JArray []"])
  qed
  show ?thesis
    using first
    by (auto simp: rejected handle_webhook_not_json accepted mismatch)
qed

theorem malformed_payload_outcome_witness:
  "fst (handle_webhook example_env (example_manager [mark ''paid 1''] [])
          (signed_request ''[{'' None ''cHA='') []) = Inl JSONDecodeError
   \<and> fst (handle_webhook example_env (example_manager [mark ''paid 1''] [])
          (signed_request ''[]'' (Some (JArray [])) ''cks='') []) = Inl IndexError
   \<and> fst (handle_webhook example_env (example_manager [mark ''paid 1''] [])
          (signed_request ''[]'' (Some (JArray [])) ''AAAA'') []) =
       Inl (HTTPException 400 ''Invalid signature'')
   \<and> fst (handle_webhook example_env (example_manager [mark ''paid 1''] [])
          (example_request ''10.0.0.5'' [] ''[]'' (Some (JArray []))) []) =
       Inl (HTTPException 403 ''IP not allowed'')"
proof (intro conjI)
  let ?m = "example_manager [mark ''paid 1''] []"
  have ip: "fst (get_client_ip (signed_request raw parsed s)) = Inr ''127.0.0.1''" for raw parsed s
    by (simp add: signed_request_ip)
  let ?r1 = "signed_request ''[{'' None ''cHA=''"
  have "json ?r1 = None \<or> json ?r1 = Some (JArray [])"
    by (simp add: signed_request_fields)
  from malformed_payload_outcome [OF this, of example_env ?m "[]" "''127.0.0.1''" "''cHA=''"]
  show "fst (handle_webhook example_env ?m ?r1 []) = Inl JSONDecodeError"
    by (simp add: ip signed_request_fields)
  let ?r2 = "signed_request ''[]'' (Some (JArray [])) ''cks=''"
  have "json ?r2 = None \<or> json ?r2 = Some (JArray [])"
    by (simp add: signed_request_fields)
  from malformed_payload_outcome [OF this, of example_env ?m "[]" "''127.0.0.1''" "''cks=''"]
  show "fst (handle_webhook example_env ?m ?r2 []) = Inl IndexError"
    by (simp add: ip signed_request_fields expected_signed)
  let ?r3 = "signed_request ''[]'' (Some (JArray [])) ''AAAA''"
  have "json ?r3 = None \<or> json ?r3 = Some (JArray [])"
    by (simp add: signed_request_fields)
  from malformed_payload_outcome [OF this, of example_env ?m "[]" "''127.0.0.1''" "''AAAA''"]
  show "fst (handle_webhook example_env ?m ?r3 []) = Inl (HTTPException 400 ''Invalid signature'')"
    by (simp add: ip signed_request_fields expected_signed is_ascii_def)
  let ?r4 = "example_request ''10.0.0.5'' [] ''[]'' (Some (JArray []))"
  have "json ?r4 = None \<or> json ?r4 = Some (JArray [])"
    by (simp add: example_request_def)
  from malformed_payload_outcome [OF this, of example_env ?m "[]" "''127.0.0.1''" "''AAAA''"]
  show "fst (handle_webhook example_env ?m ?r4 []) = Inl (HTTPException 403 ''IP not allowed'')"
    by (simp add: outsider_rejected)
qed

end
